theory Spec2Isabelle
  imports Complex_Main "HOL-Library.Word"
begin

unbundle bit_operations_syntax

section \<open>JSceneKit: the class SCNPhysicsBody\<close>

text \<open>
  A shallow embedding of \<^verbatim>\<open>src/js/SceneKit/SCNPhysicsBody.js\<close>. The class is a
  skeleton of the SceneKit interface: a first \<^verbatim>\<open>init\<close> assigns the documented
  defaults to the fields, a second \<^verbatim>\<open>init\<close> and every other instance method have an
  empty body, the factories return \<^verbatim>\<open>null\<close>, and the getter \<^verbatim>\<open>isResting\<close> reads a
  backing field. The embedding keeps exactly that, and the way a call finds its method.
\<close>

subsection \<open>Values\<close>

text \<open>
  Modelled from the spec: the enumeration \<^verbatim>\<open>SCNPhysicsBodyType\<close>, which the class
  imports and whose file is not among the sources. The spec, 3: \<open>type\<close> is one of
  Static, Dynamic, Kinematic.
\<close>

datatype SCNPhysicsBodyType = Static | Dynamic | Kinematic

text \<open>
  The JavaScript values a field or an argument of this class holds. Numbers are reals: the
  class performs no arithmetic, so no rounding is ever modelled. \<^verbatim>\<open>SCNVector3\<close> and
  \<^verbatim>\<open>SCNVector4\<close> are given by their components, any other object (a physics shape) by
  its reference.
\<close>

datatype jsval =
    Undefined
  | Null
  | Boolean bool
  | Number real
  | Vector3 real real real
  | Vector4 real real real real
  | BodyType SCNPhysicsBodyType
  | ObjectRef nat

subsection \<open>The object\<close>

text \<open>
  One field per property the class names, in the order of their first assignment in the
  source. \<open>priv_isResting\<close> is the property \<^verbatim>\<open>_isResting\<close>.
\<close>

record SCNPhysicsBody =
  physicsShape :: jsval
  type :: jsval
  velocityFactor :: jsval
  angularVelocityFactor :: jsval
  isAffectedByGravity :: jsval
  mass :: jsval
  charge :: jsval
  friction :: jsval
  rollingFriction :: jsval
  restitution :: jsval
  damping :: jsval
  angularDamping :: jsval
  momentOfInertia :: jsval
  usesDefaultMomentOfInertia :: jsval
  categoryBitMask :: jsval
  contactTestBitMask :: jsval
  collisionBitMask :: jsval
  velocity :: jsval
  angularVelocity :: jsval
  allowsResting :: jsval
  priv_isResting :: jsval

text \<open>
  An object on which none of these properties has been written yet: reading any of them
  gives \<^verbatim>\<open>undefined\<close>. (The constructor is inherited from \<^verbatim>\<open>NSObject\<close>, whose file
  is not among the sources; the theorems below that do not name \<open>alloc\<close> hold for every
  state the constructor could leave.)
\<close>

definition alloc :: SCNPhysicsBody where
  "alloc = \<lparr> physicsShape = Undefined, type = Undefined, velocityFactor = Undefined,
     angularVelocityFactor = Undefined, isAffectedByGravity = Undefined, mass = Undefined,
     charge = Undefined, friction = Undefined, rollingFriction = Undefined,
     restitution = Undefined, damping = Undefined, angularDamping = Undefined,
     momentOfInertia = Undefined, usesDefaultMomentOfInertia = Undefined,
     categoryBitMask = Undefined, contactTestBitMask = Undefined,
     collisionBitMask = Undefined, velocity = Undefined, angularVelocity = Undefined,
     allowsResting = Undefined, priv_isResting = Undefined \<rparr>"

subsection \<open>The method bodies\<close>

text \<open>
  The first class element, \<^verbatim>\<open>init()\<close> (lines 23--177): twenty-one assignments to
  \<^verbatim>\<open>this\<close>.
\<close>

definition init_noargs :: "SCNPhysicsBody \<Rightarrow> SCNPhysicsBody" where
  "init_noargs b = b\<lparr>
     physicsShape := Null,
     type := Null,
     velocityFactor := Null,
     angularVelocityFactor := Null,
     isAffectedByGravity := Boolean False,
     mass := Number 0,
     charge := Number 0,
     friction := Number 0,
     rollingFriction := Number 0,
     restitution := Number 0,
     damping := Number 0,
     angularDamping := Number 0,
     momentOfInertia := Null,
     usesDefaultMomentOfInertia := Boolean False,
     categoryBitMask := Number 0,
     contactTestBitMask := Number 0,
     collisionBitMask := Number 0,
     velocity := Null,
     angularVelocity := Null,
     allowsResting := Boolean False,
     priv_isResting := Boolean False \<rparr>"

text \<open>
  The second class element, \<^verbatim>\<open>init(type, shape) { }\<close> (lines 190--191), and the
  five other instance methods (lines 237--296): each body is empty, so each returns the
  receiver as it found it.
\<close>

definition init_type_shape :: "jsval \<Rightarrow> jsval \<Rightarrow> SCNPhysicsBody \<Rightarrow> SCNPhysicsBody" where
  "init_type_shape type' shape b = b"

definition applyForceAsImpulse :: "jsval \<Rightarrow> jsval \<Rightarrow> SCNPhysicsBody \<Rightarrow> SCNPhysicsBody" where
  "applyForceAsImpulse direction impulse b = b"

definition applyForceAtAsImpulse ::
  "jsval \<Rightarrow> jsval \<Rightarrow> jsval \<Rightarrow> SCNPhysicsBody \<Rightarrow> SCNPhysicsBody" where
  "applyForceAtAsImpulse direction position impulse b = b"

definition applyTorqueAsImpulse :: "jsval \<Rightarrow> jsval \<Rightarrow> SCNPhysicsBody \<Rightarrow> SCNPhysicsBody" where
  "applyTorqueAsImpulse torque impulse b = b"

definition clearAllForces :: "SCNPhysicsBody \<Rightarrow> SCNPhysicsBody" where
  "clearAllForces b = b"

definition resetTransform :: "SCNPhysicsBody \<Rightarrow> SCNPhysicsBody" where
  "resetTransform b = b"

text \<open>The getter \<^verbatim>\<open>get isResting() { return this._isResting }\<close>.\<close>

definition isResting :: "SCNPhysicsBody \<Rightarrow> jsval" where
  "isResting b = priv_isResting b"

text \<open>
  The static factories \<^verbatim>\<open>static()\<close>, \<^verbatim>\<open>dynamic()\<close> and \<^verbatim>\<open>kinematic()\<close> declare
  no parameter and consist of \<^verbatim>\<open>return null\<close>. The argument list is whatever the caller
  passes; \<open>None\<close> is the \<^verbatim>\<open>null\<close> they return where a body is documented.
\<close>

definition static :: "jsval list \<Rightarrow> SCNPhysicsBody option" where
  "static args = None"

definition dynamic :: "jsval list \<Rightarrow> SCNPhysicsBody option" where
  "dynamic args = None"

definition kinematic :: "jsval list \<Rightarrow> SCNPhysicsBody option" where
  "kinematic args = None"

subsection \<open>The class body and method calls\<close>

text \<open>
  A JavaScript call binds the parameters by position: a parameter without an argument is
  \<^verbatim>\<open>undefined\<close>, an argument without a parameter is dropped.
\<close>

definition arg :: "jsval list \<Rightarrow> nat \<Rightarrow> jsval" where
  "arg args i = (if i < length args then args ! i else Undefined)"

type_synonym js_method = "jsval list \<Rightarrow> SCNPhysicsBody \<Rightarrow> SCNPhysicsBody"

text \<open>The instance methods of the class body, in source order, under their names.\<close>

definition SCNPhysicsBody_methods :: "(string \<times> js_method) list" where
  "SCNPhysicsBody_methods =
    [ (''init'', \<lambda>args. init_noargs),
      (''init'', \<lambda>args. init_type_shape (arg args 0) (arg args 1)),
      (''applyForceAsImpulse'', \<lambda>args. applyForceAsImpulse (arg args 0) (arg args 1)),
      (''applyForceAtAsImpulse'',
         \<lambda>args. applyForceAtAsImpulse (arg args 0) (arg args 1) (arg args 2)),
      (''applyTorqueAsImpulse'', \<lambda>args. applyTorqueAsImpulse (arg args 0) (arg args 1)),
      (''clearAllForces'', \<lambda>args. clearAllForces),
      (''resetTransform'', \<lambda>args. resetTransform) ]"

text \<open>
  JavaScript has no overloading. Evaluating a class body defines its methods on the
  prototype one after the other, each under its name, and a definition under a name that
  is already there replaces the earlier one. The class body names \<^verbatim>\<open>init\<close> twice.
\<close>

definition prototype :: "string \<rightharpoonup> js_method" where
  "prototype = fold (\<lambda>(name, m) p. p(name \<mapsto> m)) SCNPhysicsBody_methods Map.empty"

text \<open>
  The call \<^verbatim>\<open>b.name(args)\<close>: the method found on the prototype runs on the receiver.
  \<open>None\<close> is the TypeError of calling a property that is not there.
\<close>

definition invoke :: "string \<Rightarrow> jsval list \<Rightarrow> SCNPhysicsBody \<Rightarrow> SCNPhysicsBody option" where
  "invoke name args b = (case prototype name of None \<Rightarrow> None | Some m \<Rightarrow> Some (m args b))"

text \<open>A sequence of calls on one body stops at the first that throws.\<close>

fun run :: "(string \<times> jsval list) list \<Rightarrow> SCNPhysicsBody \<Rightarrow> SCNPhysicsBody option" where
  "run [] b = Some b"
| "run ((name, args) # cs) b =
     (case invoke name args b of None \<Rightarrow> None | Some b' \<Rightarrow> run cs b')"

subsection \<open>Bodies used as concrete inputs\<close>

text \<open>
  Only the factories and \<^verbatim>\<open>init(type, shape)\<close> are documented to give a body its
  type, and neither writes a field, so a body of a given type is one whose public
  properties were assigned by the caller.
\<close>

definition unit_mass_body :: SCNPhysicsBody where
  "unit_mass_body = alloc\<lparr> type := BodyType Dynamic, mass := Number 1,
     velocity := Vector3 0 0 0, angularVelocity := Vector4 0 0 0 0 \<rparr>"

definition static_body_unassigned :: SCNPhysicsBody where
  "static_body_unassigned = alloc\<lparr> type := BodyType Static \<rparr>"

definition static_body_at_rest :: SCNPhysicsBody where
  "static_body_at_rest = alloc\<lparr> type := BodyType Static,
     velocity := Vector3 0 0 0, angularVelocity := Vector4 0 0 0 0 \<rparr>"


subsection \<open>Collision filtering\<close>

text \<open>
  JavaScript's \<^verbatim>\<open>&\<close> converts each operand to a 32-bit integer: a number is truncated
  towards zero and wrapped modulo \<open>2 ^ 32\<close>, \<^verbatim>\<open>true\<close> is 1, and \<^verbatim>\<open>undefined\<close>,
  \<^verbatim>\<open>null\<close>, \<^verbatim>\<open>false\<close> and what is not a number are 0.
\<close>

definition toInt32 :: "jsval \<Rightarrow> 32 word" where
  "toInt32 v = (case v of
       Number r \<Rightarrow> word_of_int (if 0 \<le> r then \<lfloor>r\<rfloor> else \<lceil>r\<rceil>)
     | Boolean t \<Rightarrow> (if t then 1 else 0)
     | _ \<Rightarrow> 0)"

text \<open>
  Modelled from the spec: the bitmask test of the collision filter. The class only stores
  the three masks; the code that pairs bodies is not among the sources. The spec, 4.3: two
  bodies A, B are eligible to generate a physical collision response iff
  \<^verbatim>\<open>(A.categoryBitMask & B.collisionBitMask) != 0 AND
  (B.categoryBitMask & A.collisionBitMask) != 0\<close>.
\<close>

definition eligibleForCollision :: "SCNPhysicsBody \<Rightarrow> SCNPhysicsBody \<Rightarrow> bool" where
  "eligibleForCollision A B =
     (toInt32 (categoryBitMask A) AND toInt32 (collisionBitMask B) \<noteq> 0
      \<and> toInt32 (categoryBitMask B) AND toInt32 (collisionBitMask A) \<noteq> 0)"

text \<open>
  Modelled from the spec: the response of the collision filter, which is not among the
  sources either. The spec, 4.3: both tests, the bitmask test and the geometric overlap of
  the shapes, must pass for a response.
\<close>

definition collisionResponse :: "bool \<Rightarrow> SCNPhysicsBody \<Rightarrow> SCNPhysicsBody \<Rightarrow> bool" where
  "collisionResponse overlap A B = (overlap \<and> eligibleForCollision A B)"

text \<open>A body whose category and collision masks the caller assigned.\<close>

definition body_with_masks :: "real \<Rightarrow> real \<Rightarrow> SCNPhysicsBody" where
  "body_with_masks category collision =
     alloc\<lparr> categoryBitMask := Number category, collisionBitMask := Number collision \<rparr>"

section \<open>Method dispatch\<close>

lemma prototype_init:
  "prototype ''init'' = Some (\<lambda>args. init_type_shape (arg args 0) (arg args 1))"
  by (simp add: prototype_def SCNPhysicsBody_methods_def)

lemma invoke_init: "invoke ''init'' args b = Some b"
  by (simp add: invoke_def prototype_init init_type_shape_def)

lemma invoke_applyForceAsImpulse: "invoke ''applyForceAsImpulse'' args b = Some b"
  by (simp add: invoke_def prototype_def SCNPhysicsBody_methods_def applyForceAsImpulse_def)

lemma invoke_applyForceAtAsImpulse: "invoke ''applyForceAtAsImpulse'' args b = Some b"
  by (simp add: invoke_def prototype_def SCNPhysicsBody_methods_def applyForceAtAsImpulse_def)

lemma invoke_applyTorqueAsImpulse: "invoke ''applyTorqueAsImpulse'' args b = Some b"
  by (simp add: invoke_def prototype_def SCNPhysicsBody_methods_def applyTorqueAsImpulse_def)

lemma invoke_clearAllForces: "invoke ''clearAllForces'' args b = Some b"
  by (simp add: invoke_def prototype_def SCNPhysicsBody_methods_def clearAllForces_def)

lemma invoke_resetTransform: "invoke ''resetTransform'' args b = Some b"
  by (simp add: invoke_def prototype_def SCNPhysicsBody_methods_def resetTransform_def)

lemmas invoke_simps =
  invoke_init invoke_applyForceAsImpulse invoke_applyForceAtAsImpulse
  invoke_applyTorqueAsImpulse invoke_clearAllForces invoke_resetTransform

text \<open>The names a call can use, and what a call under any other name does.\<close>

lemma dom_prototype:
  "dom prototype = {''init'', ''applyForceAsImpulse'', ''applyForceAtAsImpulse'',
     ''applyTorqueAsImpulse'', ''clearAllForces'', ''resetTransform''}"
  by (auto simp: prototype_def SCNPhysicsBody_methods_def split: if_splits)

lemma invoke_declared: "name \<in> dom prototype \<Longrightarrow> invoke name args b = Some b"
  unfolding dom_prototype using invoke_simps by auto

lemma invoke_undeclared: "name \<notin> dom prototype \<Longrightarrow> invoke name args b = None"
  by (auto simp: invoke_def split: option.splits)

text \<open>No method that the prototype holds writes a field: a call returns the receiver.\<close>

lemma invoke_Some_same: "invoke name args b = Some b' \<Longrightarrow> b' = b"
proof (cases "name \<in> dom prototype")
  case True
  assume "invoke name args b = Some b'"
  with invoke_declared [OF True, of args b] show ?thesis by simp
next
  case False
  assume "invoke name args b = Some b'"
  with invoke_undeclared [OF False, of args b] show ?thesis by simp
qed

lemma run_Some_same: "run cs b = Some b' \<Longrightarrow> b' = b"
proof (induction cs arbitrary: b)
  case Nil
  then show ?case by simp
next
  case (Cons c cs)
  obtain name args where c: "c = (name, args)" by (cases c)
  from Cons.prems c obtain b1 where
    step: "invoke name args b = Some b1" and rest: "run cs b1 = Some b'"
    by (auto split: option.splits)
  from invoke_Some_same [OF step] Cons.IH [OF rest] show ?case by simp
qed

lemma run_declared: "\<forall>c\<in>set cs. fst c \<in> dom prototype \<Longrightarrow> run cs b = Some b"
proof (induction cs)
  case Nil
  show ?case by simp
next
  case (Cons c cs)
  obtain name args where c: "c = (name, args)" by (cases c)
  from Cons.prems c have "invoke name args b = Some b"
    by (simp add: invoke_declared)
  moreover from Cons have "run cs b = Some b" by simp
  ultimately show ?case using c by simp
qed

lemma run_append:
  "run (cs @ ds) b = (case run cs b of None \<Rightarrow> None | Some b' \<Rightarrow> run ds b')"
  by (induction cs arbitrary: b) (auto split: option.splits)

text \<open>In particular no call, under any name and with any arguments, changes what the getter returns.\<close>

lemma invoke_keeps_isResting: "invoke name args b = Some b' \<Longrightarrow> isResting b' = isResting b"
  by (drule invoke_Some_same) simp

lemma run_keeps_isResting: "run cs b = Some b' \<Longrightarrow> isResting b' = isResting b"
  by (drule run_Some_same) simp

section \<open>Forces, impulses and torques\<close>

text \<open>
  C1. The claim: on a Dynamic body of mass \<open>m > 0\<close>, \<^verbatim>\<open>applyForceAsImpulse(I, true)\<close>
  changes the velocity by \<open>I / m\<close> at once. The method's documentation says the same (the
  body is accelerated immediately), but its body is empty. On the body of mass 1 at rest
  the impulse \<open>(1, 0, 0)\<close> should give the velocity \<open>(1, 0, 0)\<close>; the call returns and the
  velocity still reads \<open>(0, 0, 0)\<close>.
\<close>

theorem applyForceAsImpulse_impulse_discarded:
  "map_option velocity
     (invoke ''applyForceAsImpulse'' [Vector3 1 0 0, Boolean True] unit_mass_body)
   = Some (Vector3 0 0 0)"
  by (simp add: invoke_applyForceAsImpulse unit_mass_body_def)

text \<open>
  C5. The claim: a force applied with \<^verbatim>\<open>impulse = false\<close> changes the velocity by
  \<open>F / m * dt\<close> at the step that follows, and two such calls add up. The documentation
  of the method says that the forces of a step are summed and accelerate the body at its
  end, but the method stores nothing: the body that reaches the end of the step is the
  body before the call, in every field. The sources contain no step function, so the step is
  any function \<open>step\<close> of the duration and the body: whatever it computes, it computes
  the same with the two forces \<open>(1, 0, 0)\<close> and \<open>(0, 2, 0)\<close> as with none.
\<close>

theorem applyForceAsImpulse_force_discarded:
  fixes step :: "real \<Rightarrow> SCNPhysicsBody \<Rightarrow> SCNPhysicsBody"
  shows "map_option (step dt)
     (run [(''applyForceAsImpulse'', [Vector3 1 0 0, Boolean False]),
           (''applyForceAsImpulse'', [Vector3 0 2 0, Boolean False])] unit_mass_body)
   = Some (step dt unit_mass_body)"
  by (simp add: invoke_applyForceAsImpulse)

text \<open>
  No step function can make up for it. On the body of mass 1 at rest and with \<open>dt = 1\<close>
  the claimed velocity after the step is the force itself, for every force; but the step
  sees the same body whatever the force was.
\<close>

lemma no_step_recovers_force:
  fixes step :: "real \<Rightarrow> SCNPhysicsBody \<Rightarrow> SCNPhysicsBody"
  shows "\<not> (\<forall>F. map_option (\<lambda>b. velocity (step 1 b))
                 (invoke ''applyForceAsImpulse'' [F, Boolean False] unit_mass_body) = Some F)"
proof
  assume claimed: "\<forall>F. map_option (\<lambda>b. velocity (step 1 b))
                 (invoke ''applyForceAsImpulse'' [F, Boolean False] unit_mass_body) = Some F"
  then have "velocity (step 1 unit_mass_body) = F" for F
    by (simp add: invoke_applyForceAsImpulse)
  from this [of "Vector3 1 0 0"] this [of "Vector3 0 0 0"] show False
    by simp
qed


text \<open>
  C2. The claim: on a body of type Static the velocity and the angular velocity are exactly
  zero after any sequence of apply calls. The class never writes a zero vector, and no
  method sets a type, so a Static body is a body whose \<open>type\<close> the caller assigned. On
  one whose velocity was never assigned, both properties read \<^verbatim>\<open>undefined\<close> after the
  call as before it (and \<^verbatim>\<open>null\<close> by the defaults of \<open>init_noargs\<close>): not zero.
\<close>

theorem static_body_velocity_not_zero:
  "type static_body_unassigned = BodyType Static
   \<and> map_option velocity
        (run [(''applyForceAsImpulse'', [Vector3 1 0 0, Boolean True])] static_body_unassigned)
       = Some Undefined
   \<and> map_option angularVelocity
        (run [(''applyForceAsImpulse'', [Vector3 1 0 0, Boolean True])] static_body_unassigned)
       = Some Undefined"
  by (simp add: invoke_applyForceAsImpulse static_body_unassigned_def alloc_def)

text \<open>
  C2, amended. What holds: any sequence of \<^verbatim>\<open>applyForceAsImpulse\<close>,
  \<^verbatim>\<open>applyForceAtAsImpulse\<close> and \<^verbatim>\<open>applyTorqueAsImpulse\<close> calls, with any arguments, on
  a body of type Static returns, and the velocity and the angular velocity read exactly what
  they read before. A Static body that is at rest stays at rest.
\<close>

theorem apply_calls_keep_velocity:
  assumes "type b = BodyType Static"
    and "\<forall>c\<in>set cs. fst c \<in>
     {''applyForceAsImpulse'', ''applyForceAtAsImpulse'', ''applyTorqueAsImpulse''}"
  shows "map_option velocity (run cs b) = Some (velocity b)
    \<and> map_option angularVelocity (run cs b) = Some (angularVelocity b)"
proof -
  from assms(2) have "\<forall>c\<in>set cs. fst c \<in> dom prototype"
    unfolding dom_prototype by blast
  then have "run cs b = Some b"
    by (rule run_declared)
  then show ?thesis by simp
qed

theorem apply_calls_keep_velocity_witness:
  "map_option velocity
     (run [(''applyForceAsImpulse'', [Vector3 1 0 0, Boolean True]),
           (''applyForceAtAsImpulse'', [Vector3 0 2 0, Vector3 0 0 1, Boolean False]),
           (''applyTorqueAsImpulse'', [Vector4 0 0 1 3, Boolean True])] static_body_at_rest)
   = Some (Vector3 0 0 0)
   \<and> map_option angularVelocity
     (run [(''applyForceAsImpulse'', [Vector3 1 0 0, Boolean True]),
           (''applyForceAtAsImpulse'', [Vector3 0 2 0, Vector3 0 0 1, Boolean False]),
           (''applyTorqueAsImpulse'', [Vector4 0 0 1 3, Boolean True])] static_body_at_rest)
   = Some (Vector4 0 0 0 0)"
  using apply_calls_keep_velocity
    [of static_body_at_rest
        "[(''applyForceAsImpulse'', [Vector3 1 0 0, Boolean True]),
          (''applyForceAtAsImpulse'', [Vector3 0 2 0, Vector3 0 0 1, Boolean False]),
          (''applyTorqueAsImpulse'', [Vector4 0 0 1 3, Boolean True])]"]
  by (simp add: static_body_at_rest_def)

section \<open>Factories\<close>

text \<open>
  C3. The claim: \<^verbatim>\<open>dynamic(s)\<close> returns a body whose type reads Dynamic and whose
  \<^verbatim>\<open>physicsShape\<close> reads \<open>s\<close>. The factory returns \<^verbatim>\<open>null\<close>: there is no body to read
  a type or a shape from.
\<close>

theorem dynamic_returns_no_body:
  "map_option type (dynamic [ObjectRef 1]) \<noteq> Some (BodyType Dynamic)
   \<and> map_option physicsShape (dynamic [ObjectRef 1]) \<noteq> Some (ObjectRef 1)"
  by (simp add: dynamic_def)

text \<open>
  C3, amended. The factory \<^verbatim>\<open>dynamic()\<close> declares no parameter: a shape passed to it
  is dropped, and the call gives what the call without an argument gives. No shape reaches
  a body through the factory.
\<close>

theorem dynamic_ignores_shape: "dynamic (shape # others) = dynamic []"
  by (simp add: dynamic_def)

section \<open>Synchronizing with the node\<close>

text \<open>
  C8. The claim: \<^verbatim>\<open>resetTransform()\<close> overwrites the body's position and orientation
  with the world transform of its node. The documentation of the method says so; its body
  is empty. It takes no argument, reads no node, and the receiver is returned with every
  field as it was; the class has no field for a position, an orientation or a node.
\<close>

theorem resetTransform_writes_nothing:
  "invoke ''resetTransform'' [] unit_mass_body = Some unit_mass_body"
  by (rule invoke_resetTransform)

section \<open>The defaults and the rest state\<close>

text \<open>
  What the body of the first \<^verbatim>\<open>init\<close> would establish, on any object: the scalar
  coefficients and the three masks 0, the booleans false, the object-valued properties
  \<^verbatim>\<open>null\<close>.
\<close>

lemma init_noargs_scalars:
  "mass (init_noargs b) = Number 0" "charge (init_noargs b) = Number 0"
  "friction (init_noargs b) = Number 0" "rollingFriction (init_noargs b) = Number 0"
  "restitution (init_noargs b) = Number 0" "damping (init_noargs b) = Number 0"
  "angularDamping (init_noargs b) = Number 0"
  by (simp_all add: init_noargs_def)

lemma init_noargs_masks:
  "categoryBitMask (init_noargs b) = Number 0" "collisionBitMask (init_noargs b) = Number 0"
  "contactTestBitMask (init_noargs b) = Number 0"
  by (simp_all add: init_noargs_def)

lemma init_noargs_booleans:
  "isAffectedByGravity (init_noargs b) = Boolean False"
  "usesDefaultMomentOfInertia (init_noargs b) = Boolean False"
  "allowsResting (init_noargs b) = Boolean False"
  "isResting (init_noargs b) = Boolean False"
  by (simp_all add: init_noargs_def isResting_def)

lemma init_noargs_nulls:
  "physicsShape (init_noargs b) = Null" "type (init_noargs b) = Null"
  "velocity (init_noargs b) = Null" "angularVelocity (init_noargs b) = Null"
  "velocityFactor (init_noargs b) = Null" "angularVelocityFactor (init_noargs b) = Null"
  "momentOfInertia (init_noargs b) = Null"
  by (simp_all add: init_noargs_def)

text \<open>
  C10. The claim: after \<^verbatim>\<open>init()\<close> the coefficients and masks are 0, the booleans
  false and the object-valued properties \<^verbatim>\<open>null\<close>. That is what the first \<^verbatim>\<open>init\<close>
  assigns (the four lemmas above), and its comment calls it the constructor. But the class
  body defines \<^verbatim>\<open>init(type, shape) {}\<close> after it under the same name, which replaces it
  on the prototype (\<open>prototype_init\<close>): the call \<^verbatim>\<open>init()\<close> runs the empty body with both
  parameters \<^verbatim>\<open>undefined\<close> and assigns nothing. On a new object every property still
  reads \<^verbatim>\<open>undefined\<close>.
\<close>

theorem init_call_assigns_nothing:
  "map_option (\<lambda>b. [mass b, categoryBitMask b, allowsResting b, velocity b, type b])
     (invoke ''init'' [] alloc)
   = Some [Undefined, Undefined, Undefined, Undefined, Undefined]"
  by (simp add: invoke_init alloc_def)

text \<open>
  C9. The claim: after any sequence of public operations the getter \<^verbatim>\<open>isResting\<close>
  returns \<^verbatim>\<open>false\<close>. Its documentation gives \<^verbatim>\<open>false\<close> as the default. The only
  assignment to \<^verbatim>\<open>_isResting\<close> is in the first \<^verbatim>\<open>init\<close>, which no call reaches (see
  C10), so on a new object the getter returns \<^verbatim>\<open>undefined\<close>, before and after every
  call. (The second half of the claim holds: no operation sets the field to true, since no
  call changes what the getter returns, \<open>run_keeps_isResting\<close>.)
\<close>

theorem isResting_reads_undefined:
  "map_option isResting
     (run [(''init'', []),
           (''applyForceAsImpulse'', [Vector3 1 0 0, Boolean True]),
           (''applyTorqueAsImpulse'', [Vector4 0 0 1 3, Boolean False]),
           (''clearAllForces'', []),
           (''resetTransform'', [])] alloc)
   = Some Undefined"
  by (simp add: invoke_simps isResting_def alloc_def)

subsection \<open>The rest state\<close>


section \<open>Collision filtering\<close>

text \<open>
  C4. With the filter as the spec words it: two overlapping bodies get a collision response
  exactly when both mask tests pass, and two bodies that fail one of them get none, whether
  they overlap or not. A body whose masks are the defaults of \<open>init_noargs\<close>, or were never
  assigned, fails the test against every body.
\<close>

theorem collision_filter:
  "(collisionResponse True A B \<longleftrightarrow>
      toInt32 (categoryBitMask A) AND toInt32 (collisionBitMask B) \<noteq> 0
      \<and> toInt32 (categoryBitMask B) AND toInt32 (collisionBitMask A) \<noteq> 0)
   \<and> (toInt32 (categoryBitMask A) AND toInt32 (collisionBitMask B) = 0
        \<or> toInt32 (categoryBitMask B) AND toInt32 (collisionBitMask A) = 0
      \<longrightarrow> \<not> collisionResponse overlap A B)
   \<and> \<not> collisionResponse overlap (init_noargs A) B
   \<and> \<not> collisionResponse overlap alloc B"
  by (simp add: collisionResponse_def eligibleForCollision_def toInt32_def
      init_noargs_def alloc_def)

theorem collision_filter_witness:
  "collisionResponse True (body_with_masks 1 2) (body_with_masks 2 1)
   \<and> \<not> collisionResponse True (body_with_masks 1 2) (body_with_masks 4 1)"
proof -
  have fails: "toInt32 (categoryBitMask (body_with_masks 1 2))
        AND toInt32 (collisionBitMask (body_with_masks 4 1)) = 0
      \<or> toInt32 (categoryBitMask (body_with_masks 4 1))
        AND toInt32 (collisionBitMask (body_with_masks 1 2)) = 0"
    by (simp add: body_with_masks_def toInt32_def)
  have passes: "toInt32 (categoryBitMask (body_with_masks 1 2))
        AND toInt32 (collisionBitMask (body_with_masks 2 1)) \<noteq> 0
      \<and> toInt32 (categoryBitMask (body_with_masks 2 1))
        AND toInt32 (collisionBitMask (body_with_masks 1 2)) \<noteq> 0"
    by (simp add: body_with_masks_def toInt32_def)
  from collision_filter [of "body_with_masks 1 2" "body_with_masks 2 1" True] passes
  have "collisionResponse True (body_with_masks 1 2) (body_with_masks 2 1)"
    by blast
  moreover
  from collision_filter [of "body_with_masks 1 2" "body_with_masks 4 1" True] fails
  have "\<not> collisionResponse True (body_with_masks 1 2) (body_with_masks 4 1)"
    by blast
  ultimately show ?thesis by simp
qed

end
